theory Spec2Isabelle
  imports Complex_Main "HOL-Library.Sublist"
begin

section \<open>Strings\<close>

text \<open>
  JavaScript strings are modelled as \<^typ>\<open>string\<close>. The two string operations of
  \<^verbatim>\<open>hubspot-form.tsx\<close> that matter are \<^verbatim>\<open>toLowerCase\<close> and \<^verbatim>\<open>includes\<close>; lower-casing
  acts on the letters A to Z, which is all that deciding whether the substring
  \<^verbatim>\<open>email\<close> occurs depends on.
\<close>

definition toLowerCase_char :: "char \<Rightarrow> char" where
  "toLowerCase_char c =
     (let n = (of_char c :: nat) in if 65 \<le> n \<and> n \<le> 90 then char_of (n + 32) else c)"

definition toLowerCase :: "string \<Rightarrow> string" where
  "toLowerCase s = map toLowerCase_char s"

definition str_includes :: "string \<Rightarrow> string \<Rightarrow> bool" where
  \<comment> \<open>\<^verbatim>\<open>s.includes(t)\<close>: \<open>t\<close> occurs in \<open>s\<close> as a contiguous run.\<close>
  "str_includes s t = sublist t s"

section \<open>Data model\<close>

text \<open>
  The interfaces of \<^verbatim>\<open>hubspot-form.tsx\<close>. An optional property \<^verbatim>\<open>p?: T\<close> is a
  \<^typ>\<open>'a option\<close>, \<open>None\<close> standing for \<^verbatim>\<open>undefined\<close>. The \<^verbatim>\<open>validation\<close> property of
  \<^verbatim>\<open>FormFieldConfig\<close> is never written nor read by the component and is left out.
\<close>

record field_option =
  opt_label :: string
  opt_value :: string

datatype field_type = Text | Email | Select | Multiselect | Number | Multi_line_text

fun type_tag :: "field_type \<Rightarrow> string" where
  "type_tag Text = ''text''"
| "type_tag Email = ''email''"
| "type_tag Select = ''select''"
| "type_tag Multiselect = ''multiselect''"
| "type_tag Number = ''number''"
| "type_tag Multi_line_text = ''multi_line_text''"

record FormFieldConfig =
  name :: string
  label :: string
  ftype :: field_type
  placeholder :: "string option"
  description :: "string option"
  required :: "bool option"
  options :: "field_option list option"

record FormConfig =
  cfg_name :: string
  cfg_fields :: "FormFieldConfig list"

record HubspotField =
  hs_name :: string
  hs_label :: string
  fieldType :: string
  hs_required :: bool
  hs_description :: "string option"
  hs_placeholder :: "string option"
  hs_options :: "field_option list option"

record HubspotFieldGroup =
  group_fields :: "HubspotField list"

record HubspotFormData =
  form_name :: string
  fieldGroups :: "HubspotFieldGroup list"

section \<open>Schema translator: \<^verbatim>\<open>convertHubspotFormToConfig\<close>\<close>

definition copy_options :: "field_option list option \<Rightarrow> field_option list option" where
  \<comment> \<open>\<^verbatim>\<open>field.options?.map((opt) => ({label: opt.label, value: opt.value}))\<close>\<close>
  "copy_options os =
     map_option (map (\<lambda>opt. \<lparr>opt_label = opt_label opt, opt_value = opt_value opt\<rparr>)) os"

definition convertField :: "HubspotField \<Rightarrow> FormFieldConfig" where
  \<comment> \<open>The body of the inner \<^verbatim>\<open>forEach\<close>: the object literal, then the \<^verbatim>\<open>switch\<close>.\<close>
  "convertField field =
     (let fieldConfig =
        \<lparr>name = hs_name field, label = hs_label field, ftype = Text,
         placeholder = hs_placeholder field, description = hs_description field,
         required = Some (hs_required field), options = None\<rparr>
      in if fieldType field = ''email'' then fieldConfig\<lparr>ftype := Email\<rparr>
         else if fieldType field = ''dropdown'' then
           fieldConfig\<lparr>ftype := Select, options := copy_options (hs_options field)\<rparr>
         else if fieldType field = ''multiple_checkboxes'' then
           fieldConfig\<lparr>ftype := Multiselect, options := copy_options (hs_options field)\<rparr>
         else if fieldType field = ''number'' then fieldConfig\<lparr>ftype := Number\<rparr>
         else if fieldType field = ''multi_line_text'' then fieldConfig\<lparr>ftype := Text\<rparr>
         else if str_includes (toLowerCase (hs_name field)) ''email'' then fieldConfig\<lparr>ftype := Email\<rparr>
         else fieldConfig\<lparr>ftype := Text\<rparr>)"

definition convertGroup :: "HubspotFieldGroup \<Rightarrow> FormFieldConfig list \<Rightarrow> FormFieldConfig list" where
  \<comment> \<open>\<^verbatim>\<open>group.fields.forEach(...)\<close>, each round ending in \<^verbatim>\<open>fields.push(fieldConfig)\<close>.\<close>
  "convertGroup grp acc = fold (\<lambda>field fs. fs @ [convertField field]) (group_fields grp) acc"

definition convertHubspotFormToConfig :: "HubspotFormData \<Rightarrow> FormConfig" where
  "convertHubspotFormToConfig hubspotForm =
     \<lparr>cfg_name = form_name hubspotForm,
      cfg_fields = fold convertGroup (fieldGroups hubspotForm) []\<rparr>"

section \<open>JavaScript values\<close>

text \<open>
  The values a form field can hold, and what the validators make of them: a missing
  property reads as \<^verbatim>\<open>undefined\<close>; a number appears once the transform of a
  \<^verbatim>\<open>number\<close> field has run. Negative zero is identified with zero, which none of
  \<^verbatim>\<open>!val\<close>, \<^verbatim>\<open>isNaN\<close> and \<^verbatim>\<open>String\<close> tells apart.
\<close>

datatype jsnum = NaN | Finite rat | PosInfinity | NegInfinity

datatype jsval = Undefined | Str string | Num jsnum | Arr "jsval list"

text \<open>
  What the component takes from its host platform and from the validation library
  without defining it is a parameter of the model:
  \<^item> \<open>email_regex\<close>: the regular expression behind the library's \<^verbatim>\<open>.email()\<close> check,
    of which the model fixes only that it asks for an \<^verbatim>\<open>@\<close>;
  \<^item> \<open>numeric_literal\<close>: \<^verbatim>\<open>Number(s)\<close> on a non-empty string \<open>s\<close>;
  \<^item> \<open>number_toString\<close>: \<^verbatim>\<open>String(n)\<close> on a number \<open>n\<close>;
  \<^item> \<open>url_after_scheme\<close>: whether the URL parser, having read the scheme and its colon,
    succeeds on the rest of the input.
\<close>

record platform =
  email_regex :: "string \<Rightarrow> bool"
  numeric_literal :: "string \<Rightarrow> jsnum"
  number_toString :: "jsnum \<Rightarrow> string"
  url_after_scheme :: "string \<Rightarrow> string \<Rightarrow> bool"

fun join_comma :: "string list \<Rightarrow> string" where
  "join_comma [] = []"
| "join_comma [x] = x"
| "join_comma (x # y # ys) = x @ '','' @ join_comma (y # ys)"

fun js_String :: "platform \<Rightarrow> jsval \<Rightarrow> string" where
  "js_String p Undefined = ''undefined''"
| "js_String p (Str s) = s"
| "js_String p (Num n) = number_toString p n"
| "js_String p (Arr xs) = join_comma (map (\<lambda>x. if x = Undefined then [] else js_String p x) xs)"

definition StringToNumber :: "platform \<Rightarrow> string \<Rightarrow> jsnum" where
  \<comment> \<open>The empty string converts to 0.\<close>
  "StringToNumber p s = (if s = [] then Finite 0 else numeric_literal p s)"

fun js_Number :: "platform \<Rightarrow> jsval \<Rightarrow> jsnum" where
  "js_Number p Undefined = NaN"
| "js_Number p (Str s) = StringToNumber p s"
| "js_Number p (Num n) = n"
| "js_Number p (Arr xs) = StringToNumber p (js_String p (Arr xs))"

definition isNaN :: "jsnum \<Rightarrow> bool" where
  "isNaN n = (n = NaN)"

fun truthy :: "jsval \<Rightarrow> bool" where
  "truthy Undefined = False"
| "truthy (Str s) = (s \<noteq> [])"
| "truthy (Num n) = (n \<noteq> NaN \<and> n \<noteq> Finite 0)"
| "truthy (Arr xs) = True"

subsection \<open>Objects used as dictionaries\<close>

text \<open>
  An object that starts as the literal \<^verbatim>\<open>{}\<close> and is filled by \<^verbatim>\<open>obj[k] = v\<close> is modelled
  by the map of its own properties. The assignment adds or overwrites the own property
  \<open>k\<close>, except under the name \<^verbatim>\<open>__proto__\<close>: that name reaches the setter inherited from
  \<^verbatim>\<open>Object.prototype\<close>, and the object gets no own property.
\<close>

definition set_property :: "(string \<rightharpoonup> 'a) \<Rightarrow> string \<Rightarrow> 'a \<Rightarrow> (string \<rightharpoonup> 'a)" where
  "set_property obj k v = (if k = ''__proto__'' then obj else obj(k \<mapsto> v))"

subsection \<open>The \<^verbatim>\<open>URL\<close> constructor\<close>

text \<open>
  \<^verbatim>\<open>new URL(val)\<close> with no base, up to the point where the scheme is known: leading and
  trailing C0 controls and spaces are stripped, tabs and newlines removed, and the input
  must then start with a letter, go on with letters, digits, \<^verbatim>\<open>+\<close>, \<^verbatim>\<open>-\<close> or \<^verbatim>\<open>.\<close> and
  reach a colon; otherwise the constructor throws. \<open>new_URL\<close> is true when it returns.
\<close>

definition c0_or_space :: "char \<Rightarrow> bool" where
  "c0_or_space c = ((of_char c :: nat) \<le> 32)"

definition tab_or_newline :: "char \<Rightarrow> bool" where
  "tab_or_newline c = ((of_char c :: nat) = 9 \<or> (of_char c :: nat) = 10 \<or> (of_char c :: nat) = 13)"

definition ascii_alpha :: "char \<Rightarrow> bool" where
  "ascii_alpha c =
     (let n = (of_char c :: nat) in (65 \<le> n \<and> n \<le> 90) \<or> (97 \<le> n \<and> n \<le> 122))"

definition scheme_char :: "char \<Rightarrow> bool" where
  "scheme_char c =
     (let n = (of_char c :: nat)
      in ascii_alpha c \<or> (48 \<le> n \<and> n \<le> 57) \<or> c = CHR ''+'' \<or> c = CHR ''-'' \<or> c = CHR ''.'')"

definition url_preprocess :: "string \<Rightarrow> string" where
  "url_preprocess s =
     filter (\<lambda>c. \<not> tab_or_newline c)
       (rev (dropWhile c0_or_space (rev (dropWhile c0_or_space s))))"

definition scheme_split :: "string \<Rightarrow> (string \<times> string) option" where
  "scheme_split s =
     (case s of
        [] \<Rightarrow> None
      | c # cs \<Rightarrow>
          if ascii_alpha c then
            (case dropWhile scheme_char cs of
               [] \<Rightarrow> None
             | d # rest \<Rightarrow>
                 if d = CHR '':''
                 then Some (toLowerCase (c # takeWhile scheme_char cs), rest)
                 else None)
          else None)"

definition new_URL :: "platform \<Rightarrow> string \<Rightarrow> bool" where
  "new_URL p s =
     (case scheme_split (url_preprocess s) of
        None \<Rightarrow> False
      | Some (scheme, rest) \<Rightarrow> url_after_scheme p scheme rest)"

section \<open>The validation library\<close>

text \<open>
  The part of zod that \<^verbatim>\<open>generateZodSchema\<close> uses. A schema is one of four classes of
  object; \<^verbatim>\<open>min\<close> is a method of string and array schemas, \<^verbatim>\<open>email\<close> of string schemas
  only, and calling a method that an object does not have throws a \<^verbatim>\<open>TypeError\<close>
  (the casts \<^verbatim>\<open>as z.ZodString\<close> are erased at run time). \<^verbatim>\<open>optional\<close>, \<^verbatim>\<open>transform\<close>
  and \<^verbatim>\<open>refine\<close> are methods of every schema and wrap it. The three arrow functions
  that the component hands to \<^verbatim>\<open>transform\<close> and \<^verbatim>\<open>refine\<close> are named by tags.
\<close>

datatype string_check = MinLength nat string | EmailFormat string

datatype transform_fn = ToNumber

datatype refine_fn = IsNumber | IsUrl

datatype effect = Transform transform_fn | Refinement refine_fn string

datatype schema =
    ZodString "string_check list"
  | ZodArray schema "(nat \<times> string) option"
  | ZodOptional schema
  | ZodEffects schema effect

datatype js_error = TypeError string

definition z_string :: schema where
  "z_string = ZodString []"

definition z_array :: "schema \<Rightarrow> schema" where
  "z_array t = ZodArray t None"

fun zod_min :: "schema \<Rightarrow> nat \<Rightarrow> string \<Rightarrow> js_error + schema" where
  "zod_min (ZodString checks) n msg = Inr (ZodString (checks @ [MinLength n msg]))"
| "zod_min (ZodArray t minLength) n msg = Inr (ZodArray t (Some (n, msg)))"
| "zod_min (ZodOptional t) n msg = Inl (TypeError ''min is not a function'')"
| "zod_min (ZodEffects t e) n msg = Inl (TypeError ''min is not a function'')"

fun zod_email :: "schema \<Rightarrow> string \<Rightarrow> js_error + schema" where
  "zod_email (ZodString checks) msg = Inr (ZodString (checks @ [EmailFormat msg]))"
| "zod_email (ZodArray t minLength) msg = Inl (TypeError ''email is not a function'')"
| "zod_email (ZodOptional t) msg = Inl (TypeError ''email is not a function'')"
| "zod_email (ZodEffects t e) msg = Inl (TypeError ''email is not a function'')"

definition zod_optional :: "schema \<Rightarrow> schema" where
  "zod_optional t = ZodOptional t"

definition zod_transform :: "schema \<Rightarrow> transform_fn \<Rightarrow> schema" where
  "zod_transform t f = ZodEffects t (Transform f)"

definition zod_refine :: "schema \<Rightarrow> refine_fn \<Rightarrow> string \<Rightarrow> schema" where
  "zod_refine t f msg = ZodEffects t (Refinement f msg)"

subsection \<open>Parsing\<close>

text \<open>
  A parse ends \<^verbatim>\<open>aborted\<close> (the value has the wrong type), \<^verbatim>\<open>dirty\<close> (some check has
  raised an issue) or \<^verbatim>\<open>valid\<close>; a value is accepted when its parse is valid.
\<close>

datatype parse_result = INVALID | DIRTY jsval | OK jsval

fun check_ok :: "platform \<Rightarrow> string \<Rightarrow> string_check \<Rightarrow> bool" where
  "check_ok p s (MinLength n msg) = (\<not> length s < n)"
| "check_ok p s (EmailFormat msg) = (CHR ''@'' \<in> set s \<and> email_regex p s)"

fun apply_transform :: "platform \<Rightarrow> transform_fn \<Rightarrow> jsval \<Rightarrow> jsval" where
  \<comment> \<open>\<^verbatim>\<open>(val) => { const num = Number(val); return isNaN(num) ? val : num; }\<close>\<close>
  "apply_transform p ToNumber val = (let num = js_Number p val in if isNaN num then val else Num num)"

fun apply_refinement :: "platform \<Rightarrow> refine_fn \<Rightarrow> jsval \<Rightarrow> bool" where
  \<comment> \<open>\<^verbatim>\<open>(val) => !isNaN(Number(val))\<close>\<close>
  "apply_refinement p IsNumber val = (\<not> isNaN (js_Number p val))"
  \<comment> \<open>\<^verbatim>\<open>(val) => { if (!val) return true; try { new URL(val); return true; } catch { return false; } }\<close>\<close>
| "apply_refinement p IsUrl val = (if \<not> truthy val then True else new_URL p (js_String p val))"

fun mergeArray :: "bool \<Rightarrow> parse_result list \<Rightarrow> jsval list \<Rightarrow> parse_result" where
  "mergeArray dirty [] arrayValue = (if dirty then DIRTY (Arr arrayValue) else OK (Arr arrayValue))"
| "mergeArray dirty (INVALID # results) arrayValue = INVALID"
| "mergeArray dirty (DIRTY x # results) arrayValue = mergeArray True results (arrayValue @ [x])"
| "mergeArray dirty (OK x # results) arrayValue = mergeArray dirty results (arrayValue @ [x])"

fun parse :: "platform \<Rightarrow> schema \<Rightarrow> jsval \<Rightarrow> parse_result" where
  "parse p (ZodString checks) v =
     (case v of
        Str s \<Rightarrow> if list_all (check_ok p s) checks then OK (Str s) else DIRTY (Str s)
      | _ \<Rightarrow> INVALID)"
| "parse p (ZodArray t minLength) v =
     (case v of
        Arr xs \<Rightarrow>
          mergeArray (case minLength of None \<Rightarrow> False | Some (n, msg) \<Rightarrow> length xs < n)
            (map (parse p t) xs) []
      | _ \<Rightarrow> INVALID)"
| "parse p (ZodOptional t) v = (if v = Undefined then OK Undefined else parse p t v)"
| "parse p (ZodEffects t (Transform f)) v =
     (case parse p t v of OK base \<Rightarrow> OK (apply_transform p f base) | r \<Rightarrow> r)"
| "parse p (ZodEffects t (Refinement f msg)) v =
     (case parse p t v of
        INVALID \<Rightarrow> INVALID
      | DIRTY x \<Rightarrow> DIRTY x
      | OK x \<Rightarrow> if apply_refinement p f x then OK x else DIRTY x)"

definition accepts :: "platform \<Rightarrow> schema \<Rightarrow> jsval \<Rightarrow> bool" where
  "accepts p t v = (case parse p t v of OK x \<Rightarrow> True | _ \<Rightarrow> False)"

section \<open>Validation schema builder: \<^verbatim>\<open>generateZodSchema\<close>\<close>

definition bind_err :: "js_error + 'a \<Rightarrow> ('a \<Rightarrow> js_error + 'b) \<Rightarrow> js_error + 'b" where
  \<comment> \<open>Sequencing of statements that may throw.\<close>
  "bind_err m k = (case m of Inl e \<Rightarrow> Inl e | Inr x \<Rightarrow> k x)"

definition base_schema :: "field_type \<Rightarrow> js_error + schema" where
  \<comment> \<open>The \<^verbatim>\<open>switch (field.type)\<close>.\<close>
  "base_schema t =
     (case t of
        Multiselect \<Rightarrow> Inr (z_array z_string)
      | Email \<Rightarrow> zod_email z_string ''Please enter a valid email address.''
      | Number \<Rightarrow> Inr (zod_transform z_string ToNumber)
      | Multi_line_text \<Rightarrow> zod_min z_string 1 ''Please enter your message.''
      | _ \<Rightarrow> Inr z_string)"

definition fieldSchema :: "FormFieldConfig \<Rightarrow> js_error + schema" where
  \<comment> \<open>The body of \<^verbatim>\<open>config.fields.forEach\<close>, up to the assignment to \<^verbatim>\<open>schema[field.name]\<close>.\<close>
  "fieldSchema field =
     bind_err (base_schema (ftype field)) (\<lambda>s0.
     bind_err (if required field = Some True
               then zod_min s0 1 (label field @ '' is required.'')
               else Inr (zod_optional s0)) (\<lambda>s1.
     bind_err (if ftype field = Email
               then zod_email s1 ''Please enter a valid email address.''
               else Inr s1) (\<lambda>s2.
     let s3 = (if ftype field = Number
               then zod_refine s2 IsNumber ''Please enter a valid number.'' else s2);
         s4 = (if name field = ''website''
               then zod_refine s3 IsUrl ''Please enter a valid URL.'' else s3)
     in Inr s4)))"

fun build_shape :: "FormFieldConfig list \<Rightarrow> (string \<rightharpoonup> schema) \<Rightarrow> js_error + (string \<rightharpoonup> schema)" where
  "build_shape [] shape = Inr shape"
| "build_shape (field # rest) shape =
     (case fieldSchema field of
        Inl e \<Rightarrow> Inl e
      | Inr s \<Rightarrow> build_shape rest (set_property shape (name field) s))"

definition generateZodSchema :: "FormConfig \<Rightarrow> js_error + (string \<rightharpoonup> schema)" where
  \<comment> \<open>The result stands for \<^verbatim>\<open>z.object(schema)\<close>, whose shape is the own properties of \<^verbatim>\<open>schema\<close>.\<close>
  "generateZodSchema config = build_shape (cfg_fields config) Map.empty"

definition field_of :: "FormConfig \<Rightarrow> string \<Rightarrow> FormFieldConfig option" where
  \<comment> \<open>The field whose validator is stored under a name: the last one so named.\<close>
  "field_of config k = find (\<lambda>f. name f = k) (rev (cfg_fields config))"

definition validator_accepts ::
  "platform \<Rightarrow> js_error + (string \<rightharpoonup> schema) \<Rightarrow> string \<Rightarrow> jsval \<Rightarrow> bool" where
  \<comment> \<open>A validator was produced, and it finds no issue with value \<open>v\<close> of property \<open>k\<close>.\<close>
  "validator_accepts p r k v =
     (case r of
        Inl e \<Rightarrow> False
      | Inr shape \<Rightarrow> (case shape k of None \<Rightarrow> False | Some t \<Rightarrow> accepts p t v))"

definition validator_rejects ::
  "platform \<Rightarrow> js_error + (string \<rightharpoonup> schema) \<Rightarrow> string \<Rightarrow> jsval \<Rightarrow> bool" where
  \<comment> \<open>A validator was produced, and it raises an issue on value \<open>v\<close> of property \<open>k\<close>.\<close>
  "validator_rejects p r k v =
     (case r of
        Inl e \<Rightarrow> False
      | Inr shape \<Rightarrow> (case shape k of None \<Rightarrow> False | Some t \<Rightarrow> \<not> accepts p t v))"

text \<open>
  A platform to evaluate examples on: the remainder of the e-mail pattern and of the URL
  parser accept every input, no non-empty string is read as a number, and every number
  is rendered as the empty string. No example below depends on the last two choices.
\<close>

definition stub_platform :: platform where
  "stub_platform =
     \<lparr>email_regex = (\<lambda>s. True), numeric_literal = (\<lambda>s. NaN),
      number_toString = (\<lambda>n. []), url_after_scheme = (\<lambda>scheme rest. True)\<rparr>"

definition field_config :: "string \<Rightarrow> field_type \<Rightarrow> bool \<Rightarrow> FormFieldConfig" where
  \<comment> \<open>A field with the given name, type and \<^verbatim>\<open>required\<close> flag, for examples.\<close>
  "field_config n t r =
     \<lparr>name = n, label = n, ftype = t, placeholder = None, description = None,
      required = Some r, options = None\<rparr>"

section \<open>The form controller: \<^verbatim>\<open>HubspotForm\<close>\<close>

text \<open>
  The two collaborators \<^verbatim>\<open>getHubspotForm\<close> and \<^verbatim>\<open>submitHubspotForm\<close> are awaited; each
  call settles by resolving with a result or by rejecting with a thrown value. Of a
  thrown value the component looks only at \<^verbatim>\<open>instanceof Error\<close> and, for an
  \<^verbatim>\<open>Error\<close>, at its \<^verbatim>\<open>message\<close> (the empty string when none was given).
\<close>

datatype thrown = ErrorInstance string | OtherValue

datatype 'a outcome = Resolved 'a | Rejected thrown

record fetch_result =
  fr_success :: bool
  fr_data :: "HubspotFormData option"
  fr_error :: "string option"

record submit_data =
  inlineMessage :: "string option"
  redirectUrl :: "string option"
  status :: string
  correlationId :: "string option"

record submit_result =
  sr_success :: bool
  sr_data :: "submit_data option"
  sr_error :: "string option"

record submission =
  formId :: string
  sub_fields :: "string \<rightharpoonup> jsval"
  sub_fieldTypes :: "string \<rightharpoonup> string"
  pageUrl :: string
  pageName :: string

text \<open>
  The component's props: the form identifier, and whether the host has passed each of
  the two callbacks. \<open>browser\<close> holds \<^verbatim>\<open>window.location.href\<close> and \<^verbatim>\<open>document.title\<close>.
\<close>

record props =
  props_formId :: string
  has_onSubmissionData :: bool
  has_onSubmissionResponse :: bool

record browser =
  location_href :: string
  document_title :: string

text \<open>
  What a handler does to the world outside the component: calls to the collaborators and
  to the host's callbacks. \<^verbatim>\<open>onSubmissionData\<close> receives the payload without its
  \<^verbatim>\<open>fieldTypes\<close>.
\<close>

datatype action =
    FetchForm string
  | SubmitForm submission
  | OnSubmissionData string "string \<rightharpoonup> jsval" string string
  | OnSubmissionResponse submit_result

text \<open>
  The component's state: its six \<^verbatim>\<open>useState\<close> cells and, of the form object, the
  values that \<^verbatim>\<open>form.reset\<close> writes.
\<close>

record controller =
  formConfig :: "FormConfig option"
  error :: "string option"
  loading :: bool
  submitError :: "string option"
  submitSuccess :: bool
  isSubmitting :: bool
  defaultValues :: "string \<rightharpoonup> jsval"
  formValues :: "string \<rightharpoonup> jsval"

definition initial :: controller where
  "initial =
     \<lparr>formConfig = None, error = None, loading = True, submitError = None,
      submitSuccess = False, isSubmitting = False,
      defaultValues = Map.empty, formValues = Map.empty\<rparr>"

definition or_else :: "string option \<Rightarrow> string \<Rightarrow> string" where
  \<comment> \<open>\<^verbatim>\<open>s || fallback\<close> on an optional string: \<^verbatim>\<open>undefined\<close> and the empty string are falsy.\<close>
  "or_else s fallback = (case s of None \<Rightarrow> fallback | Some m \<Rightarrow> if m = [] then fallback else m)"

definition message_of :: "thrown \<Rightarrow> string \<Rightarrow> string" where
  \<comment> \<open>\<^verbatim>\<open>err instanceof Error ? err.message : fallback\<close>\<close>
  "message_of err fallback = (case err of ErrorInstance m \<Rightarrow> m | OtherValue \<Rightarrow> fallback)"

subsection \<open>Loading the form\<close>

definition initial_values :: "FormConfig \<Rightarrow> (string \<rightharpoonup> jsval)" where
  \<comment> \<open>The \<^verbatim>\<open>reduce\<close> over \<^verbatim>\<open>config.fields\<close>.\<close>
  "initial_values config =
     fold (\<lambda>field acc.
             set_property acc (name field) (if ftype field = Multiselect then Arr [] else Str []))
       (cfg_fields config) Map.empty"

definition mount :: "props \<Rightarrow> controller \<times> action list" where
  \<comment> \<open>The first render and its effect, which calls \<^verbatim>\<open>fetchForm\<close>.\<close>
  "mount pr = (initial, [FetchForm (props_formId pr)])"

definition fetchForm_settled :: "fetch_result outcome \<Rightarrow> controller \<Rightarrow> controller \<times> action list" where
  \<comment> \<open>\<^verbatim>\<open>fetchForm\<close> from the point where \<^verbatim>\<open>await getHubspotForm(formId)\<close> settles.\<close>
  "fetchForm_settled out st =
     (let st1 =
        (case out of
           Resolved result \<Rightarrow>
             (case (fr_success result, fr_data result) of
                (True, Some d) \<Rightarrow>
                  (let config = convertHubspotFormToConfig d;
                       values = initial_values config
                   in st\<lparr>formConfig := Some config, defaultValues := values, formValues := values\<rparr>)
              | _ \<Rightarrow> st\<lparr>error := Some (or_else (fr_error result) ''Failed to fetch form'')\<rparr>)
         | Rejected err \<Rightarrow> st\<lparr>error := Some (message_of err ''Failed to fetch form'')\<rparr>)
      in (st1\<lparr>loading := False\<rparr>, []))"

subsection \<open>Submitting\<close>

definition add_field ::
  "(string \<Rightarrow> jsval) \<Rightarrow> FormFieldConfig \<Rightarrow> (string \<rightharpoonup> jsval) \<times> (string \<rightharpoonup> string) \<Rightarrow>
   (string \<rightharpoonup> jsval) \<times> (string \<rightharpoonup> string)" where
  \<comment> \<open>One round of \<^verbatim>\<open>formConfig?.fields.forEach\<close> in \<^verbatim>\<open>onSubmit\<close>; \<open>values k\<close> is what
      \<^verbatim>\<open>values[k]\<close> reads.\<close>
  "add_field values field acc =
     (case acc of (hubspotFields, fieldTypes) \<Rightarrow>
        (let v = values (name field)
         in if v \<noteq> Undefined then
              (if ftype field = Multiselect then
                 (let arrayValue = (case v of Arr xs \<Rightarrow> v | _ \<Rightarrow> Arr [v])
                  in (set_property hubspotFields (name field) arrayValue,
                      set_property fieldTypes (name field) ''multiple_checkboxes''))
               else (set_property hubspotFields (name field) v,
                     set_property fieldTypes (name field) (type_tag (ftype field))))
            else (hubspotFields, fieldTypes)))"

definition collect_fields ::
  "FormConfig option \<Rightarrow> (string \<Rightarrow> jsval) \<Rightarrow> (string \<rightharpoonup> jsval) \<times> (string \<rightharpoonup> string)" where
  "collect_fields config values =
     fold (add_field values) (case config of None \<Rightarrow> [] | Some c \<Rightarrow> cfg_fields c)
       (Map.empty, Map.empty)"

definition build_submission ::
  "props \<Rightarrow> browser \<Rightarrow> FormConfig option \<Rightarrow> (string \<Rightarrow> jsval) \<Rightarrow> submission" where
  "build_submission pr br config values =
     (case collect_fields config values of (hubspotFields, fieldTypes) \<Rightarrow>
        \<lparr>formId = props_formId pr, sub_fields = hubspotFields, sub_fieldTypes = fieldTypes,
         pageUrl = location_href br, pageName = document_title br\<rparr>)"

definition onSubmit_start ::
  "props \<Rightarrow> browser \<Rightarrow> (string \<Rightarrow> jsval) \<Rightarrow> controller \<Rightarrow> controller \<times> action list" where
  \<comment> \<open>\<^verbatim>\<open>onSubmit\<close> up to the call of \<^verbatim>\<open>submitHubspotForm\<close>.\<close>
  "onSubmit_start pr br values st =
     (let payload = build_submission pr br (formConfig st) values
      in (st\<lparr>isSubmitting := True, submitError := None, submitSuccess := False\<rparr>,
          (if has_onSubmissionData pr
           then [OnSubmissionData (formId payload) (sub_fields payload) (pageUrl payload) (pageName payload)]
           else []) @ [SubmitForm payload]))"

definition onSubmit_settled ::
  "props \<Rightarrow> submit_result outcome \<Rightarrow> controller \<Rightarrow> controller \<times> action list" where
  \<comment> \<open>\<^verbatim>\<open>onSubmit\<close> from the point where \<^verbatim>\<open>await submitHubspotForm(...)\<close> settles.\<close>
  "onSubmit_settled pr out st =
     (case out of
        Resolved result \<Rightarrow>
          ((if sr_success result
            then st\<lparr>submitSuccess := True, formValues := defaultValues st\<rparr>
            else st\<lparr>submitError := Some (or_else (sr_error result) ''Failed to submit form'')\<rparr>)
             \<lparr>isSubmitting := False\<rparr>,
           if has_onSubmissionResponse pr then [OnSubmissionResponse result] else [])
      | Rejected err \<Rightarrow>
          (let errorMessage = message_of err ''Failed to submit form'';
               errorResponse = \<lparr>sr_success = False, sr_data = None, sr_error = Some errorMessage\<rparr>
           in (st\<lparr>submitError := Some errorMessage, isSubmitting := False\<rparr>,
               if has_onSubmissionResponse pr then [OnSubmissionResponse errorResponse] else [])))"

subsection \<open>Rendering\<close>

datatype screen =
    LoadingScreen
  | ErrorScreen string
  | NoConfigScreen
  | FormScreen FormConfig bool "string option"

definition truthy_string :: "string option \<Rightarrow> string option" where
  \<comment> \<open>\<^verbatim>\<open>{s && ...}\<close>: the string when it is neither \<^verbatim>\<open>null\<close> nor empty.\<close>
  "truthy_string s = (case s of None \<Rightarrow> None | Some m \<Rightarrow> if m = [] then None else Some m)"

definition error_banner :: "controller \<Rightarrow> string option" where
  "error_banner st = truthy_string (submitError st)"

definition screen_of :: "controller \<Rightarrow> screen" where
  \<comment> \<open>The chain of early returns that ends the component, and the form after them.\<close>
  "screen_of st =
     (if loading st then LoadingScreen
      else case truthy_string (error st) of
             Some m \<Rightarrow> ErrorScreen m
           | None \<Rightarrow>
               (case formConfig st of
                  None \<Rightarrow> NoConfigScreen
                | Some config \<Rightarrow> FormScreen config (submitSuccess st) (error_banner st)))"

definition render :: "controller \<Rightarrow> js_error + screen" where
  \<comment> \<open>A render first builds the resolver, \<^verbatim>\<open>generateZodSchema(formConfig)\<close>, which may throw.\<close>
  "render st =
     (case formConfig st of
        None \<Rightarrow> Inr (screen_of st)
      | Some config \<Rightarrow>
          (case generateZodSchema config of Inl e \<Rightarrow> Inl e | Inr shape \<Rightarrow> Inr (screen_of st)))"

subsection \<open>Events of one mount\<close>

text \<open>
  What can happen to a mounted component: the host renders it again with another
  \<^verbatim>\<open>formId\<close>, on which the effect (dependencies \<^verbatim>\<open>[formId, form]\<close>) calls \<^verbatim>\<open>fetchForm\<close>
  again without touching the state; a call of \<^verbatim>\<open>getHubspotForm\<close> settles; the user
  submits; a call of \<^verbatim>\<open>submitHubspotForm\<close> settles.
\<close>

datatype event =
    FormIdChanged string
  | FetchSettled "fetch_result outcome"
  | Submit "string \<Rightarrow> jsval"
  | SubmitSettled "submit_result outcome"

fun handle :: "props \<Rightarrow> browser \<Rightarrow> event \<Rightarrow> controller \<Rightarrow> controller \<times> action list" where
  "handle pr br (FormIdChanged i) st = (st, if i = props_formId pr then [] else [FetchForm i])"
| "handle pr br (FetchSettled out) st = fetchForm_settled out st"
| "handle pr br (Submit values) st = onSubmit_start pr br values st"
| "handle pr br (SubmitSettled out) st = onSubmit_settled pr out st"

fun props_after :: "event \<Rightarrow> props \<Rightarrow> props" where
  "props_after (FormIdChanged i) pr = pr\<lparr>props_formId := i\<rparr>"
| "props_after e pr = pr"

fun run :: "props \<Rightarrow> browser \<Rightarrow> event list \<Rightarrow> controller \<times> action list \<Rightarrow> controller \<times> action list" where
  "run pr br [] sa = sa"
| "run pr br (e # es) sa =
     (case handle pr br e (fst sa) of
        (st, acts) \<Rightarrow> run (props_after e pr) br es (st, snd sa @ acts))"

fun is_fetch :: "action \<Rightarrow> bool" where
  "is_fetch (FetchForm i) = True"
| "is_fetch a = False"

subsection \<open>A form to run examples on\<close>

definition demo_props :: props where
  "demo_props = \<lparr>props_formId = ''form-1'', has_onSubmissionData = True, has_onSubmissionResponse = True\<rparr>"

definition demo_browser :: browser where
  "demo_browser = \<lparr>location_href = ''https://example.com/contact'', document_title = ''Contact''\<rparr>"

definition demo_form :: HubspotFormData where
  "demo_form = \<lparr>form_name = ''Contact'', fieldGroups = [\<lparr>group_fields =
     [\<lparr>hs_name = ''firstname'', hs_label = ''First name'', fieldType = ''single_line_text'',
       hs_required = True, hs_description = None, hs_placeholder = None, hs_options = None\<rparr>]\<rparr>]\<rparr>"

text \<open>
  The form loads, the user submits, and the call of \<^verbatim>\<open>submitHubspotForm\<close> settles as
  given.
\<close>

definition submit_events :: "submit_result outcome \<Rightarrow> event list" where
  "submit_events out =
     [FetchSettled (Resolved \<lparr>fr_success = True, fr_data = Some demo_form, fr_error = None\<rparr>),
      Submit (\<lambda>k. if k = ''firstname'' then Str ''Ada'' else Undefined),
      SubmitSettled out]"

text \<open>
  A survey with one group of checkboxes, and form values in which every read gives a
  string.
\<close>

definition survey_form :: HubspotFormData where
  "survey_form = \<lparr>form_name = ''Survey'', fieldGroups = [\<lparr>group_fields =
     [\<lparr>hs_name = ''colors'', hs_label = ''Colors'', fieldType = ''multiple_checkboxes'',
       hs_required = False, hs_description = None, hs_placeholder = None,
       hs_options = Some [\<lparr>opt_label = ''A'', opt_value = ''a''\<rparr>,
                          \<lparr>opt_label = ''B'', opt_value = ''b''\<rparr>]\<rparr>]\<rparr>]\<rparr>"

definition survey_values :: "string \<Rightarrow> jsval" where
  "survey_values k = (if k = ''colors'' then Arr [Str ''a''] else Undefined)"

definition filled_values :: "string \<Rightarrow> jsval" where
  "filled_values k = Str ''x''"


section \<open>Properties of the translator\<close>


lemma fold_push: "fold (\<lambda>x acc. acc @ [f x]) xs acc = acc @ map f xs"
  by (induction xs arbitrary: acc) simp_all

lemma convertGroup_eq: "convertGroup g acc = acc @ map convertField (group_fields g)"
  by (simp add: convertGroup_def fold_push)

lemma fold_convertGroup:
  "fold convertGroup gs acc = acc @ map convertField (concat (map group_fields gs))"
  by (induction gs arbitrary: acc) (simp_all add: convertGroup_eq)

lemma ftype_convertField_cases:
  "ftype (convertField f) \<in> {Email, Select, Multiselect, Number, Text}"
  by (simp add: convertField_def Let_def)














text \<open>
  Claim C9. The translator's result is a function of the form definition alone (it reads
  nothing but its argument), so translating the same definition again gives the same
  configuration: the form's name, and the translation of each field, the groups taken in
  order and the fields of each group in order.
\<close>

theorem convertHubspotFormToConfig_flattens:
  "convertHubspotFormToConfig form =
     \<lparr>cfg_name = form_name form,
      cfg_fields = map convertField (concat (map group_fields (fieldGroups form)))\<rparr>"
  by (simp add: convertHubspotFormToConfig_def fold_convertGroup)

text \<open>
  Claim C10. No field of a translated configuration has the internal type
  \<^verbatim>\<open>multi_line_text\<close>, so the schema builder never starts such a field from its
  always-required string schema.
\<close>

theorem translator_never_multi_line_text:
  "\<forall>f \<in> set (cfg_fields (convertHubspotFormToConfig form)).
     ftype f \<noteq> Multi_line_text
     \<and> base_schema (ftype f) \<noteq> zod_min z_string 1 ''Please enter your message.''"
proof
  fix f assume "f \<in> set (cfg_fields (convertHubspotFormToConfig form))"
  then obtain h where f: "f = convertField h"
    by (auto simp: convertHubspotFormToConfig_def fold_convertGroup)
  have "ftype f \<in> {Email, Select, Multiselect, Number, Text}"
    unfolding f by (rule ftype_convertField_cases)
  then show "ftype f \<noteq> Multi_line_text
     \<and> base_schema (ftype f) \<noteq> zod_min z_string 1 ''Please enter your message.''"
    by (auto simp: base_schema_def z_string_def z_array_def zod_transform_def)
qed

theorem translator_never_multi_line_text_witness:
  "convertField \<lparr>hs_name = ''message'', hs_label = ''Message'', fieldType = ''multi_line_text'',
        hs_required = True, hs_description = None, hs_placeholder = None, hs_options = None\<rparr>
     \<in> set (cfg_fields (convertHubspotFormToConfig
          \<lparr>form_name = ''contact'', fieldGroups = [\<lparr>group_fields =
            [\<lparr>hs_name = ''message'', hs_label = ''Message'', fieldType = ''multi_line_text'',
              hs_required = True, hs_description = None, hs_placeholder = None,
              hs_options = None\<rparr>]\<rparr>]\<rparr>))
   \<and> ftype (convertField \<lparr>hs_name = ''message'', hs_label = ''Message'',
        fieldType = ''multi_line_text'', hs_required = True, hs_description = None,
        hs_placeholder = None, hs_options = None\<rparr>) \<noteq> Multi_line_text"
  using translator_never_multi_line_text [of "\<lparr>form_name = ''contact'', fieldGroups =
    [\<lparr>group_fields =
      [\<lparr>hs_name = ''message'', hs_label = ''Message'', fieldType = ''multi_line_text'',
        hs_required = True, hs_description = None, hs_placeholder = None,
        hs_options = None\<rparr>]\<rparr>]\<rparr>"]
  by (simp add: convertHubspotFormToConfig_def convertGroup_def)

section \<open>Properties of the schema builder\<close>

lemma find_SomeD: "find P xs = Some x \<Longrightarrow> x \<in> set xs \<and> P x"
  by (induction xs) (auto split: if_splits)

lemma find_snoc:
  "find P (xs @ [x]) = (case find P xs of Some y \<Rightarrow> Some y | None \<Rightarrow> if P x then Some x else None)"
  by (induction xs) auto

text \<open>
  No validator is stored under the name \<^verbatim>\<open>__proto__\<close>; under any other name the validator
  is the one built from the last field so named.
\<close>

lemma build_shape_reserved:
  "build_shape fs sh = Inr sh' \<Longrightarrow> sh' ''__proto__'' = sh ''__proto__''"
  by (induction fs arbitrary: sh) (auto simp: set_property_def split: sum.splits)

lemma build_shape_lookup:
  "build_shape fs sh = Inr sh' \<Longrightarrow> k \<noteq> ''__proto__'' \<Longrightarrow>
   sh' k = (case find (\<lambda>f. name f = k) (rev fs) of
              None \<Rightarrow> sh k
            | Some f \<Rightarrow> (case fieldSchema f of Inl e \<Rightarrow> None | Inr s \<Rightarrow> Some s))"
proof (induction fs arbitrary: sh)
  case Nil
  then show ?case by simp
next
  case (Cons f fs)
  from Cons.prems obtain s where s: "fieldSchema f = Inr s"
    and rest: "build_shape fs (set_property sh (name f) s) = Inr sh'"
    by (auto split: sum.splits)
  show ?case
    using Cons.IH [OF rest Cons.prems(2)] s Cons.prems(2)
    by (auto simp: find_snoc set_property_def split: option.splits)
qed

lemma build_shape_all_Inr:
  "build_shape fs sh = Inr sh' \<Longrightarrow> f \<in> set fs \<Longrightarrow> \<exists>s. fieldSchema f = Inr s"
  by (induction fs arbitrary: sh) (auto split: sum.splits)

lemma build_shape_Inl:
  "build_shape fs sh = Inl e \<Longrightarrow> \<exists>f \<in> set fs. fieldSchema f = Inl e"
  by (induction fs arbitrary: sh) (auto split: sum.splits)

lemma build_shape_total:
  "\<forall>f \<in> set fs. \<exists>s. fieldSchema f = Inr s \<Longrightarrow> \<exists>sh'. build_shape fs sh = Inr sh'"
  by (induction fs arbitrary: sh) (auto split: sum.splits)

lemma field_of_in_set: "field_of cfg k = Some f \<Longrightarrow> f \<in> set (cfg_fields cfg) \<and> name f = k"
proof -
  assume "field_of cfg k = Some f"
  then have "find (\<lambda>f. name f = k) (rev (cfg_fields cfg)) = Some f"
    by (simp add: field_of_def)
  then have "f \<in> set (rev (cfg_fields cfg)) \<and> name f = k"
    by (rule find_SomeD)
  then show ?thesis by simp
qed

lemma generateZodSchema_reserved:
  "generateZodSchema cfg = Inr shape \<Longrightarrow> shape ''__proto__'' = None"
  unfolding generateZodSchema_def by (simp add: build_shape_reserved)

lemma generateZodSchema_lookup:
  assumes "generateZodSchema cfg = Inr shape" and "field_of cfg k = Some f"
    and "k \<noteq> ''__proto__''"
  shows "\<exists>s. fieldSchema f = Inr s \<and> shape k = Some s"
proof -
  from assms(2) have "f \<in> set (cfg_fields cfg)"
    by (simp add: field_of_in_set)
  with assms(1) obtain s where s: "fieldSchema f = Inr s"
    unfolding generateZodSchema_def by (blast dest: build_shape_all_Inr)
  from assms have "shape k = Some s"
    unfolding generateZodSchema_def field_of_def
    by (simp add: build_shape_lookup [where k = k] s)
  with s show ?thesis by blast
qed

lemma fieldSchema_Inl:
  "fieldSchema f = Inl e \<Longrightarrow>
     (e = TypeError ''email is not a function'' \<and> ftype f = Email \<and> required f \<noteq> Some True)
   \<or> (e = TypeError ''min is not a function'' \<and> ftype f = Number \<and> required f = Some True)"
  by (cases "ftype f")
     (auto simp: fieldSchema_def bind_err_def base_schema_def z_string_def z_array_def
        zod_transform_def zod_optional_def zod_refine_def Let_def split: if_splits)

lemma fieldSchema_email_optional:
  "ftype f = Email \<Longrightarrow> required f \<noteq> Some True \<Longrightarrow>
   fieldSchema f = Inl (TypeError ''email is not a function'')"
  by (simp add: fieldSchema_def bind_err_def base_schema_def z_string_def zod_optional_def)

lemma fieldSchema_number_required:
  "ftype f = Number \<Longrightarrow> required f = Some True \<Longrightarrow>
   fieldSchema f = Inl (TypeError ''min is not a function'')"
  by (simp add: fieldSchema_def bind_err_def base_schema_def z_string_def zod_transform_def)

lemmas build_defs = fieldSchema_def bind_err_def base_schema_def z_string_def z_array_def
  zod_transform_def zod_optional_def zod_refine_def Let_def

lemma mergeArray_strings:
  "mergeArray d (map (parse p (ZodString []) \<circ> Str) ss) acc =
     (if d then DIRTY (Arr (acc @ map Str ss)) else OK (Arr (acc @ map Str ss)))"
  by (induction ss arbitrary: acc) simp_all

lemma parse_string_array:
  "parse p (ZodArray (ZodString []) m) (Arr (map Str ss)) =
     (if (case m of None \<Rightarrow> False | Some (n, msg) \<Rightarrow> length ss < n)
      then DIRTY (Arr (map Str ss)) else OK (Arr (map Str ss)))"
  by (simp add: mergeArray_strings split: option.splits)

text \<open>
  Claim C1, as amended. The claim says that a required multiselect field accepts the empty
  list. The builder calls \<^verbatim>\<open>min(1, ...)\<close> on the schema of every required field, and on an
  array schema that is a bound on the number of elements. So, in every configuration for
  which a validator is produced, the validator of a required multiselect field rejects the
  empty list, and (when the field is not the one named \<^verbatim>\<open>website\<close>) accepts every
  non-empty list of strings. This is said of a field whose name is not \<^verbatim>\<open>__proto__\<close>,
  under which no validator is stored.
\<close>

theorem required_multiselect_rejects_empty_list:
  assumes "generateZodSchema cfg = Inr shape"
    and "field_of cfg k = Some f"
    and "k \<noteq> ''__proto__''"
    and "ftype f = Multiselect"
    and "required f = Some True"
  shows "validator_rejects p (Inr shape) k (Arr [])
       \<and> (k \<noteq> ''website'' \<longrightarrow> ss \<noteq> [] \<longrightarrow> validator_accepts p (Inr shape) k (Arr (map Str ss)))"
proof -
  from assms(1,2,3) obtain s where s: "fieldSchema f = Inr s" "shape k = Some s"
    by (blast dest: generateZodSchema_lookup)
  from assms(2) have k: "name f = k"
    by (simp add: field_of_in_set)
  let ?arr = "ZodArray (ZodString []) (Some (1, label f @ '' is required.''))"
  from s(1) assms(4,5) k have shape_s:
    "s = (if k = ''website'' then ZodEffects ?arr (Refinement IsUrl ''Please enter a valid URL.'') else ?arr)"
    by (auto simp: build_defs split: if_splits)
  have empty: "parse p ?arr (Arr []) = DIRTY (Arr [])"
    by simp
  have nonempty: "ss \<noteq> [] \<Longrightarrow> parse p ?arr (Arr (map Str ss)) = OK (Arr (map Str ss))"
    using parse_string_array [of p "Some (1, label f @ '' is required.'')" ss]
    by (cases ss) simp_all
  show ?thesis
    using empty nonempty s(2) shape_s
    by (simp add: validator_rejects_def validator_accepts_def accepts_def)
qed

text \<open>
  The claim as stated fails on a form with one required multiselect field.
\<close>

theorem required_multiselect_counterexample:
  "validator_rejects stub_platform
     (generateZodSchema \<lparr>cfg_name = ''survey'', cfg_fields = [field_config ''colors'' Multiselect True]\<rparr>)
     ''colors'' (Arr [])"
  by (simp add: validator_rejects_def accepts_def generateZodSchema_def build_defs field_config_def
      set_property_def)

theorem required_multiselect_rejects_empty_list_witness:
  "validator_rejects stub_platform
     (generateZodSchema \<lparr>cfg_name = ''survey'', cfg_fields = [field_config ''colors'' Multiselect True]\<rparr>)
     ''colors'' (Arr [])
   \<and> validator_accepts stub_platform
     (generateZodSchema \<lparr>cfg_name = ''survey'', cfg_fields = [field_config ''colors'' Multiselect True]\<rparr>)
     ''colors'' (Arr [Str ''a''])"
proof -
  let ?cfg = "\<lparr>cfg_name = ''survey'', cfg_fields = [field_config ''colors'' Multiselect True]\<rparr>"
  let ?shape = "[''colors'' \<mapsto> ZodArray (ZodString []) (Some (1, ''colors is required.''))]"
  have g: "generateZodSchema ?cfg = Inr ?shape"
    by (simp add: generateZodSchema_def build_defs field_config_def set_property_def)
  have fo: "field_of ?cfg ''colors'' = Some (field_config ''colors'' Multiselect True)"
    by (simp add: field_of_def field_config_def)
  have t: "ftype (field_config ''colors'' Multiselect True) = Multiselect"
    and r: "required (field_config ''colors'' Multiselect True) = Some True"
    by (simp_all add: field_config_def)
  show ?thesis
    using required_multiselect_rejects_empty_list [OF g fo _ t r, of stub_platform "[''a'']"]
    by (simp add: g)
qed

lemma generateZodSchema_Inl:
  assumes "f \<in> set (cfg_fields cfg)" and "fieldSchema f = Inl e"
  shows "\<exists>g \<in> set (cfg_fields cfg). \<exists>e'. fieldSchema g = Inl e' \<and> generateZodSchema cfg = Inl e'"
proof (cases "generateZodSchema cfg")
  case (Inl e')
  then show ?thesis
    unfolding generateZodSchema_def by (blast dest: build_shape_Inl)
next
  case (Inr shape)
  with assms show ?thesis
    unfolding generateZodSchema_def by (auto dest: build_shape_all_Inr)
qed

text \<open>
  Claim C3. A configuration that holds an email field that is not required, or a number
  field that is required, makes \<^verbatim>\<open>generateZodSchema\<close> throw a \<^verbatim>\<open>TypeError\<close> instead of
  returning a validator: the first calls \<^verbatim>\<open>email\<close> on the optional wrapper, the second
  \<^verbatim>\<open>min\<close> on the transform wrapper, and neither object has that method.
\<close>

theorem generateZodSchema_throws:
  assumes "f \<in> set (cfg_fields cfg)"
    and "(ftype f = Email \<and> required f \<noteq> Some True) \<or> (ftype f = Number \<and> required f = Some True)"
  shows "fieldSchema f =
           Inl (TypeError (if ftype f = Email then ''email is not a function''
                           else ''min is not a function''))
       \<and> (generateZodSchema cfg = Inl (TypeError ''email is not a function'')
          \<or> generateZodSchema cfg = Inl (TypeError ''min is not a function''))"
proof -
  from assms(2) have own: "fieldSchema f =
      Inl (TypeError (if ftype f = Email then ''email is not a function''
                      else ''min is not a function''))"
    by (auto simp: fieldSchema_email_optional fieldSchema_number_required)
  from generateZodSchema_Inl [OF assms(1) own] obtain g e'
    where "fieldSchema g = Inl e'" and "generateZodSchema cfg = Inl e'"
    by blast
  with own show ?thesis
    by (auto dest: fieldSchema_Inl)
qed

theorem generateZodSchema_throws_witness:
  "generateZodSchema \<lparr>cfg_name = ''contact'', cfg_fields = [field_config ''email'' Email False]\<rparr>
     = Inl (TypeError ''email is not a function'')
   \<and> generateZodSchema \<lparr>cfg_name = ''order'', cfg_fields = [field_config ''quantity'' Number True]\<rparr>
     = Inl (TypeError ''min is not a function'')"
proof -
  have e: "field_config ''email'' Email False
      \<in> set (cfg_fields \<lparr>cfg_name = ''contact'', cfg_fields = [field_config ''email'' Email False]\<rparr>)"
    by simp
  have n: "field_config ''quantity'' Number True
      \<in> set (cfg_fields \<lparr>cfg_name = ''order'', cfg_fields = [field_config ''quantity'' Number True]\<rparr>)"
    by simp
  show ?thesis
    using generateZodSchema_throws [OF e] generateZodSchema_throws [OF n]
    by (simp add: field_config_def generateZodSchema_def)
qed

text \<open>
  These two kinds of field are the only ones on which the builder throws.
\<close>

lemma fieldSchema_Inr:
  assumes "\<not> (ftype f = Email \<and> required f \<noteq> Some True)"
    and "\<not> (ftype f = Number \<and> required f = Some True)"
  shows "\<exists>s. fieldSchema f = Inr s"
  using assms
  by (cases "ftype f") (auto simp: build_defs)

lemma generateZodSchema_returns_iff:
  "(\<exists>shape. generateZodSchema cfg = Inr shape) \<longleftrightarrow>
   (\<forall>f \<in> set (cfg_fields cfg).
      \<not> (ftype f = Email \<and> required f \<noteq> Some True)
    \<and> \<not> (ftype f = Number \<and> required f = Some True))"
proof
  assume "\<exists>shape. generateZodSchema cfg = Inr shape"
  then obtain shape where g: "build_shape (cfg_fields cfg) Map.empty = Inr shape"
    by (auto simp: generateZodSchema_def)
  show "\<forall>f \<in> set (cfg_fields cfg).
      \<not> (ftype f = Email \<and> required f \<noteq> Some True)
    \<and> \<not> (ftype f = Number \<and> required f = Some True)"
  proof
    fix f assume "f \<in> set (cfg_fields cfg)"
    with g obtain s where "fieldSchema f = Inr s"
      by (blast dest: build_shape_all_Inr)
    then show "\<not> (ftype f = Email \<and> required f \<noteq> Some True)
        \<and> \<not> (ftype f = Number \<and> required f = Some True)"
      using fieldSchema_email_optional [of f] fieldSchema_number_required [of f]
      by auto
  qed
next
  assume "\<forall>f \<in> set (cfg_fields cfg).
      \<not> (ftype f = Email \<and> required f \<noteq> Some True)
    \<and> \<not> (ftype f = Number \<and> required f = Some True)"
  then have "\<forall>f \<in> set (cfg_fields cfg). \<exists>s. fieldSchema f = Inr s"
    by (blast intro: fieldSchema_Inr)
  then show "\<exists>shape. generateZodSchema cfg = Inr shape"
    unfolding generateZodSchema_def by (rule build_shape_total)
qed

text \<open>
  Claim C2, as amended. The claim says that every field that is not required accepts an
  absent value, and the empty string when it holds a string. In a configuration for which
  a validator is produced, a field that is not required accepts an absent value when its
  type is text, select, multiselect or multi_line_text, and accepts the empty string when
  its type is text, select or number; a multi_line_text field rejects the empty string,
  its schema asking for one character whatever the flag. This is said of a field whose
  name is not \<^verbatim>\<open>__proto__\<close>, under which no validator is stored.
\<close>

theorem optional_fields_accept_absent:
  assumes "generateZodSchema cfg = Inr shape"
    and "field_of cfg k = Some f"
    and "k \<noteq> ''__proto__''"
    and "required f \<noteq> Some True"
  shows "(ftype f \<in> {Text, Select, Multiselect, Multi_line_text} \<longrightarrow>
            validator_accepts p (Inr shape) k Undefined)
       \<and> (ftype f \<in> {Text, Select, Number} \<longrightarrow> validator_accepts p (Inr shape) k (Str []))
       \<and> (ftype f = Multi_line_text \<longrightarrow> validator_rejects p (Inr shape) k (Str []))"
proof -
  from assms(1,2,3) obtain s where s: "fieldSchema f = Inr s" "shape k = Some s"
    by (blast dest: generateZodSchema_lookup)
  show ?thesis
    using s assms(4)
    by (cases "ftype f")
       (auto simp: build_defs validator_accepts_def validator_rejects_def accepts_def
          StringToNumber_def isNaN_def split: if_splits)
qed

text \<open>
  The claim as stated fails on a form with one multi_line_text field that is not required.
\<close>

theorem optional_fields_counterexample:
  "validator_rejects stub_platform
     (generateZodSchema \<lparr>cfg_name = ''contact'', cfg_fields = [field_config ''message'' Multi_line_text False]\<rparr>)
     ''message'' (Str [])"
  by (simp add: validator_rejects_def accepts_def generateZodSchema_def build_defs field_config_def
      set_property_def)

theorem optional_fields_accept_absent_witness:
  "validator_accepts stub_platform
     (generateZodSchema \<lparr>cfg_name = ''contact'', cfg_fields = [field_config ''company'' Text False]\<rparr>)
     ''company'' Undefined
   \<and> validator_accepts stub_platform
     (generateZodSchema \<lparr>cfg_name = ''contact'', cfg_fields = [field_config ''company'' Text False]\<rparr>)
     ''company'' (Str [])"
proof -
  let ?cfg = "\<lparr>cfg_name = ''contact'', cfg_fields = [field_config ''company'' Text False]\<rparr>"
  have g: "generateZodSchema ?cfg = Inr [''company'' \<mapsto> ZodOptional (ZodString [])]"
    by (simp add: generateZodSchema_def build_defs field_config_def set_property_def)
  have fo: "field_of ?cfg ''company'' = Some (field_config ''company'' Text False)"
    by (simp add: field_of_def field_config_def)
  have r: "required (field_config ''company'' Text False) \<noteq> Some True"
    and t: "ftype (field_config ''company'' Text False) = Text"
    by (simp_all add: field_config_def)
  show ?thesis
    using optional_fields_accept_absent [OF g fo _ r, of stub_platform]
    by (simp add: g t)
qed

text \<open>
  A number field that is not required does not accept an absent value either: the number
  check is attached outside the optional wrapper and so runs on \<^verbatim>\<open>undefined\<close>.
\<close>

lemma optional_number_rejects_absent:
  assumes "generateZodSchema cfg = Inr shape"
    and "field_of cfg k = Some f"
    and "k \<noteq> ''__proto__''"
    and "required f \<noteq> Some True"
    and "ftype f = Number"
  shows "validator_rejects p (Inr shape) k Undefined"
proof -
  from assms(1,2,3) obtain s where s: "fieldSchema f = Inr s" "shape k = Some s"
    by (blast dest: generateZodSchema_lookup)
  show ?thesis
    using s assms(4,5)
    by (auto simp: build_defs validator_rejects_def accepts_def isNaN_def split: if_splits)
qed

lemma scheme_split_not_a_url: "scheme_split (url_preprocess ''not a url'') = None"
  by code_simp

lemma new_URL_not_a_url: "\<not> new_URL p ''not a url''"
  by (simp add: new_URL_def scheme_split_not_a_url)

lemma scheme_split_example: "scheme_split (url_preprocess ''https://example.com'') = Some (''https'', ''//example.com'')"
  by code_simp

lemma new_URL_example: "new_URL p ''https://example.com'' = url_after_scheme p ''https'' ''//example.com''"
  by (simp add: new_URL_def scheme_split_example)

text \<open>
  Claim C8, as amended. The claim says that the validator of a field named \<^verbatim>\<open>website\<close>
  rejects every non-empty value that is not a URL and accepts \<^verbatim>\<open>https://example.com\<close>,
  whatever the field's type. In a configuration for which a validator is produced, the
  schema of the field named \<^verbatim>\<open>website\<close> ends in the URL check whatever its type, and
  the check passes on the empty string and on an absent value. When the type is not
  number, every non-empty string on which the URL constructor throws is rejected,
  \<^verbatim>\<open>not a url\<close> among them; when it is number, every non-empty string that does not
  read as a number is. When the type is text, select or multi_line_text, every
  non-empty string that the URL constructor takes is accepted, and so is
  \<^verbatim>\<open>https://example.com\<close> provided the parser takes what follows its scheme.
\<close>

theorem website_url_check:
  assumes "generateZodSchema cfg = Inr shape"
    and "field_of cfg ''website'' = Some f"
  shows "(\<exists>t. shape ''website'' = Some (ZodEffects t (Refinement IsUrl ''Please enter a valid URL.'')))
       \<and> apply_refinement p IsUrl (Str [])
       \<and> apply_refinement p IsUrl Undefined
       \<and> (ftype f \<noteq> Number \<longrightarrow> s \<noteq> [] \<longrightarrow> \<not> new_URL p s \<longrightarrow>
            validator_rejects p (Inr shape) ''website'' (Str s))
       \<and> (ftype f \<noteq> Number \<longrightarrow> validator_rejects p (Inr shape) ''website'' (Str ''not a url''))
       \<and> (ftype f = Number \<longrightarrow> s \<noteq> [] \<longrightarrow> numeric_literal p s = NaN \<longrightarrow>
            validator_rejects p (Inr shape) ''website'' (Str s))
       \<and> (ftype f \<in> {Text, Select, Multi_line_text} \<longrightarrow> s \<noteq> [] \<longrightarrow> new_URL p s \<longrightarrow>
            validator_accepts p (Inr shape) ''website'' (Str s))
       \<and> (ftype f \<in> {Text, Select, Multi_line_text} \<longrightarrow>
            url_after_scheme p ''https'' ''//example.com'' \<longrightarrow>
            validator_accepts p (Inr shape) ''website'' (Str ''https://example.com''))"
proof -
  have "''website'' \<noteq> ''__proto__''"
    by simp
  with assms obtain t where t: "fieldSchema f = Inr t" "shape ''website'' = Some t"
    by (blast dest: generateZodSchema_lookup)
  from assms(2) have n: "name f = ''website''"
    by (simp add: field_of_in_set)
  have wrapped: "\<exists>u. t = ZodEffects u (Refinement IsUrl ''Please enter a valid URL.'')"
    using t(1) n by (cases "ftype f") (auto simp: build_defs split: if_splits sum.splits)
  have rej: "ftype f \<noteq> Number \<Longrightarrow> x \<noteq> [] \<Longrightarrow> \<not> new_URL p x \<Longrightarrow>
      validator_rejects p (Inr shape) ''website'' (Str x)" for x
    using t n
    by (cases "ftype f")
       (auto simp: build_defs validator_rejects_def accepts_def split: if_splits)
  have acc: "ftype f \<in> {Text, Select, Multi_line_text} \<Longrightarrow> x \<noteq> [] \<Longrightarrow> new_URL p x \<Longrightarrow>
      validator_accepts p (Inr shape) ''website'' (Str x)" for x
    using t n
    by (cases "ftype f")
       (auto simp: build_defs validator_accepts_def accepts_def Suc_le_eq split: if_splits)
  have num: "ftype f = Number \<Longrightarrow> s \<noteq> [] \<Longrightarrow> numeric_literal p s = NaN \<Longrightarrow>
      validator_rejects p (Inr shape) ''website'' (Str s)"
    using t n
    by (auto simp: build_defs validator_rejects_def accepts_def StringToNumber_def isNaN_def
        split: if_splits)
  show ?thesis
    using wrapped t(2) rej [of s] rej [of "''not a url''"] acc [of s]
      acc [of "''https://example.com''"] num
    by (simp add: new_URL_not_a_url new_URL_example)
qed

lemma email_schema_rejects_url:
  "\<not> accepts p
       (ZodEffects (ZodString [EmailFormat a, MinLength 1 b, EmailFormat c]) (Refinement IsUrl d))
       (Str ''https://example.com'')"
  by (simp add: accepts_def)

text \<open>
  The claim as stated fails on a required email field named \<^verbatim>\<open>website\<close>: the e-mail
  check turns \<^verbatim>\<open>https://example.com\<close> down, on every platform.
\<close>

theorem website_url_check_counterexample:
  "validator_rejects stub_platform
     (generateZodSchema \<lparr>cfg_name = ''contact'', cfg_fields = [field_config ''website'' Email True]\<rparr>)
     ''website'' (Str ''https://example.com'')"
  by (simp add: validator_rejects_def accepts_def generateZodSchema_def build_defs field_config_def
      set_property_def)

theorem website_url_check_witness:
  "validator_rejects stub_platform
     (generateZodSchema \<lparr>cfg_name = ''contact'', cfg_fields = [field_config ''website'' Text False]\<rparr>)
     ''website'' (Str ''not a url'')
   \<and> validator_accepts stub_platform
     (generateZodSchema \<lparr>cfg_name = ''contact'', cfg_fields = [field_config ''website'' Text False]\<rparr>)
     ''website'' (Str ''https://example.com'')"
proof -
  let ?cfg = "\<lparr>cfg_name = ''contact'', cfg_fields = [field_config ''website'' Text False]\<rparr>"
  have g: "generateZodSchema ?cfg =
      Inr [''website'' \<mapsto> ZodEffects (ZodOptional (ZodString [])) (Refinement IsUrl ''Please enter a valid URL.'')]"
    by (simp add: generateZodSchema_def build_defs field_config_def set_property_def)
  have fo: "field_of ?cfg ''website'' = Some (field_config ''website'' Text False)"
    by (simp add: field_of_def field_config_def)
  have t: "ftype (field_config ''website'' Text False) = Text"
    by (simp add: field_config_def)
  have u: "url_after_scheme stub_platform ''https'' ''//example.com''"
    by (simp add: stub_platform_def)
  show ?thesis
    using website_url_check [OF g fo, where p = stub_platform and s = "''not a url''"]
    by (simp add: g t u)
qed

section \<open>Properties of the controller\<close>

lemma fold_add_field_reserved:
  "fold (add_field vals) fs (hf, ft) = (hf', ft') \<Longrightarrow>
   hf' ''__proto__'' = hf ''__proto__'' \<and> ft' ''__proto__'' = ft ''__proto__''"
proof (induction fs arbitrary: hf ft)
  case Nil
  then show ?case by simp
next
  case (Cons f fs)
  obtain hf1 ft1 where step: "add_field vals f (hf, ft) = (hf1, ft1)"
    by (cases "add_field vals f (hf, ft)")
  with Cons.prems have rest: "fold (add_field vals) fs (hf1, ft1) = (hf', ft')"
    by simp
  from step have "hf1 ''__proto__'' = hf ''__proto__''" and "ft1 ''__proto__'' = ft ''__proto__''"
    by (auto simp: add_field_def set_property_def Let_def split: if_splits)
  with Cons.IH [OF rest] show ?case by simp
qed

lemma fold_add_field:
  "fold (add_field vals) fs (hf, ft) = (hf', ft') \<Longrightarrow> k \<noteq> ''__proto__'' \<Longrightarrow>
   hf' k = (case find (\<lambda>f. name f = k) (rev fs) of
              None \<Rightarrow> hf k
            | Some f \<Rightarrow>
                if vals k \<noteq> Undefined
                then Some (if ftype f = Multiselect
                           then (case vals k of Arr xs \<Rightarrow> vals k | _ \<Rightarrow> Arr [vals k])
                           else vals k)
                else hf k)
   \<and> ft' k = (case find (\<lambda>f. name f = k) (rev fs) of
              None \<Rightarrow> ft k
            | Some f \<Rightarrow>
                if vals k \<noteq> Undefined
                then Some (if ftype f = Multiselect then ''multiple_checkboxes''
                           else type_tag (ftype f))
                else ft k)"
proof (induction fs arbitrary: hf ft)
  case Nil
  then show ?case by simp
next
  case (Cons f fs)
  obtain hf1 ft1 where step: "add_field vals f (hf, ft) = (hf1, ft1)"
    by (cases "add_field vals f (hf, ft)")
  with Cons.prems have rest: "fold (add_field vals) fs (hf1, ft1) = (hf', ft')"
    by simp
  from step Cons.prems(2) have hf1: "hf1 k = (if name f = k \<and> vals k \<noteq> Undefined
        then Some (if ftype f = Multiselect
                   then (case vals k of Arr xs \<Rightarrow> vals k | _ \<Rightarrow> Arr [vals k])
                   else vals k)
        else hf k)"
    and ft1: "ft1 k = (if name f = k \<and> vals k \<noteq> Undefined
        then Some (if ftype f = Multiselect then ''multiple_checkboxes'' else type_tag (ftype f))
        else ft k)"
    by (auto simp: add_field_def set_property_def Let_def split: if_splits)
  show ?case
    using Cons.IH [OF rest Cons.prems(2)] hf1 ft1
    by (auto simp: find_snoc split: option.splits)
qed

lemma find_None_rev: "find P (rev xs) = None \<longleftrightarrow> (\<forall>x \<in> set xs. \<not> P x)"
  by (auto simp: find_None_iff)

lemma onSubmit_start_sends:
  "snd (onSubmit_start pr br vals st) =
     (if has_onSubmissionData pr
      then [OnSubmissionData (props_formId pr)
              (sub_fields (build_submission pr br (formConfig st) vals))
              (location_href br) (document_title br)]
      else [])
     @ [SubmitForm (build_submission pr br (formConfig st) vals)]"
  by (simp add: onSubmit_start_def Let_def build_submission_def split: prod.splits)

text \<open>
  Claim C5, as amended. The claim says that the payload holds exactly the fields whose
  value is not absent. The payload that \<^verbatim>\<open>onSubmit\<close> hands to \<^verbatim>\<open>submitHubspotForm\<close> holds
  exactly the fields of the configuration whose name is not \<^verbatim>\<open>__proto__\<close> and whose value
  is not \<^verbatim>\<open>undefined\<close>, and \<^verbatim>\<open>fieldTypes\<close> has the same keys. For a multiselect field the
  value is sent as an array (a bare value is wrapped) under the type tag
  \<^verbatim>\<open>multiple_checkboxes\<close>; for any other field the value is copied and the tag is the
  field's declared type. Where several fields share a name, the entry under that name
  follows the last of them. \<^verbatim>\<open>onSubmissionData\<close>, when the host passed it, receives the
  same fields.
\<close>

theorem submission_fields:
  assumes "formConfig st = Some cfg"
    and "SubmitForm sub \<in> set (snd (onSubmit_start pr br vals st))"
  shows "dom (sub_fields sub) =
           {name f |f. f \<in> set (cfg_fields cfg) \<and> name f \<noteq> ''__proto__'' \<and> vals (name f) \<noteq> Undefined}
       \<and> dom (sub_fieldTypes sub) = dom (sub_fields sub)
       \<and> (field_of cfg k = Some f \<longrightarrow> k \<noteq> ''__proto__'' \<longrightarrow> vals k \<noteq> Undefined \<longrightarrow>
            (if ftype f = Multiselect
             then sub_fields sub k = Some (case vals k of Arr xs \<Rightarrow> vals k | _ \<Rightarrow> Arr [vals k])
                \<and> sub_fieldTypes sub k = Some ''multiple_checkboxes''
             else sub_fields sub k = Some (vals k)
                \<and> sub_fieldTypes sub k = Some (type_tag (ftype f))))
       \<and> formId sub = props_formId pr \<and> pageUrl sub = location_href br
       \<and> pageName sub = document_title br
       \<and> (has_onSubmissionData pr \<longrightarrow>
            OnSubmissionData (formId sub) (sub_fields sub) (pageUrl sub) (pageName sub)
              \<in> set (snd (onSubmit_start pr br vals st)))"
proof -
  from assms have b: "sub = build_submission pr br (Some cfg) vals"
    by (auto simp: onSubmit_start_sends split: if_splits)
  obtain hf ft where c: "collect_fields (Some cfg) vals = (hf, ft)"
    by (cases "collect_fields (Some cfg) vals")
  then have f: "fold (add_field vals) (cfg_fields cfg) (Map.empty, Map.empty) = (hf, ft)"
    by (simp add: collect_fields_def)
  from b c have sub: "sub_fields sub = hf" "sub_fieldTypes sub = ft"
    "formId sub = props_formId pr" "pageUrl sub = location_href br"
    "pageName sub = document_title br"
    by (auto simp: build_submission_def)
  note look = fold_add_field [OF f]
  from fold_add_field_reserved [OF f]
  have res: "hf ''__proto__'' = None" "ft ''__proto__'' = None"
    by simp_all
  have dom_hf: "dom hf =
      {name f |f. f \<in> set (cfg_fields cfg) \<and> name f \<noteq> ''__proto__'' \<and> vals (name f) \<noteq> Undefined}"
  proof (rule set_eqI)
    fix j
    show "j \<in> dom hf \<longleftrightarrow>
        j \<in> {name f |f. f \<in> set (cfg_fields cfg) \<and> name f \<noteq> ''__proto__'' \<and> vals (name f) \<noteq> Undefined}"
    proof (cases "j = ''__proto__''")
      case True
      with res show ?thesis by (auto simp: dom_def)
    next
      case False
      show ?thesis
      proof (cases "find (\<lambda>f. name f = j) (rev (cfg_fields cfg))")
        case None
        then have "\<forall>x \<in> set (cfg_fields cfg). name x \<noteq> j"
          by (simp add: find_None_rev)
        with None look [OF False] show ?thesis by (auto simp: dom_def)
      next
        case (Some g)
        then have "g \<in> set (cfg_fields cfg) \<and> name g = j"
          using find_SomeD [of "\<lambda>f. name f = j" "rev (cfg_fields cfg)" g] by simp
        with Some False look [OF False] show ?thesis by (auto simp: dom_def)
      qed
    qed
  qed
  have dom_ft: "dom ft = dom hf"
  proof (rule set_eqI)
    fix j
    show "j \<in> dom ft \<longleftrightarrow> j \<in> dom hf"
    proof (cases "j = ''__proto__''")
      case True
      with res show ?thesis by (auto simp: dom_def)
    next
      case False
      with look [OF False] show ?thesis
        by (cases "find (\<lambda>f. name f = j) (rev (cfg_fields cfg))") (auto simp: dom_def)
    qed
  qed
  have entry: "field_of cfg k = Some f \<Longrightarrow> k \<noteq> ''__proto__'' \<Longrightarrow> vals k \<noteq> Undefined \<Longrightarrow>
      (if ftype f = Multiselect
       then hf k = Some (case vals k of Arr xs \<Rightarrow> vals k | _ \<Rightarrow> Arr [vals k])
          \<and> ft k = Some ''multiple_checkboxes''
       else hf k = Some (vals k) \<and> ft k = Some (type_tag (ftype f)))"
    using look [of k] by (auto simp: field_of_def)
  have data: "has_onSubmissionData pr \<Longrightarrow>
      OnSubmissionData (formId sub) (sub_fields sub) (pageUrl sub) (pageName sub)
        \<in> set (snd (onSubmit_start pr br vals st))"
    using b assms(1) sub by (simp add: onSubmit_start_sends)
  show ?thesis
    using sub dom_hf dom_ft entry data by simp
qed

text \<open>
  The claim as stated fails on a field named \<^verbatim>\<open>__proto__\<close>: its value is defined, and the
  payload has no entry for it, the two assignments adding no own property.
\<close>

theorem submission_fields_counterexample:
  "filled_values ''__proto__'' \<noteq> Undefined
   \<and> sub_fields (build_submission demo_props demo_browser
        (Some \<lparr>cfg_name = ''form'', cfg_fields = [field_config ''__proto__'' Text False]\<rparr>)
        filled_values) ''__proto__'' = None
   \<and> sub_fieldTypes (build_submission demo_props demo_browser
        (Some \<lparr>cfg_name = ''form'', cfg_fields = [field_config ''__proto__'' Text False]\<rparr>)
        filled_values) ''__proto__'' = None"
  by (simp add: build_submission_def collect_fields_def add_field_def set_property_def
      field_config_def filled_values_def)

text \<open>
  Scenario 2: a multiselect field \<^verbatim>\<open>colors\<close> holding \<^verbatim>\<open>["a"]\<close>.
\<close>

theorem submission_fields_witness:
  "SubmitForm (build_submission demo_props demo_browser
       (Some (convertHubspotFormToConfig survey_form)) survey_values)
     \<in> set (snd (onSubmit_start demo_props demo_browser survey_values
          (fst (fetchForm_settled
             (Resolved \<lparr>fr_success = True, fr_data = Some survey_form, fr_error = None\<rparr>) initial))))
   \<and> sub_fields (build_submission demo_props demo_browser
       (Some (convertHubspotFormToConfig survey_form)) survey_values) ''colors''
     = Some (Arr [Str ''a''])
   \<and> sub_fieldTypes (build_submission demo_props demo_browser
       (Some (convertHubspotFormToConfig survey_form)) survey_values) ''colors''
     = Some ''multiple_checkboxes''"
proof -
  let ?st = "fst (fetchForm_settled
      (Resolved \<lparr>fr_success = True, fr_data = Some survey_form, fr_error = None\<rparr>) initial)"
  let ?cfg = "convertHubspotFormToConfig survey_form"
  let ?sub = "build_submission demo_props demo_browser (Some ?cfg) survey_values"
  have c: "formConfig ?st = Some ?cfg"
    by (simp add: fetchForm_settled_def Let_def)
  then have m: "SubmitForm ?sub \<in> set (snd (onSubmit_start demo_props demo_browser survey_values ?st))"
    by (simp add: onSubmit_start_sends)
  let ?f = "convertField \<lparr>hs_name = ''colors'', hs_label = ''Colors'',
       fieldType = ''multiple_checkboxes'',
       hs_required = False, hs_description = None, hs_placeholder = None,
       hs_options = Some [\<lparr>opt_label = ''A'', opt_value = ''a''\<rparr>,
                          \<lparr>opt_label = ''B'', opt_value = ''b''\<rparr>]\<rparr>"
  have fo: "field_of ?cfg ''colors'' = Some ?f"
    by (simp add: field_of_def convertHubspotFormToConfig_def convertGroup_def survey_form_def
        convertField_def)
  have t: "ftype ?f = Multiselect"
    by (simp add: convertField_def)
  have v: "survey_values ''colors'' = Arr [Str ''a'']"
    by (simp add: survey_values_def)
  show ?thesis
    using submission_fields [OF c m, where k = "''colors''" and f = "?f"] m
    by (simp add: fo t v)
qed

lemmas handler_defs = mount_def fetchForm_settled_def onSubmit_start_def onSubmit_settled_def
  message_of_def or_else_def error_banner_def truthy_string_def Let_def

lemmas demo_defs = submit_events_def demo_props_def demo_browser_def demo_form_def
  initial_def render_def screen_of_def generateZodSchema_def convertHubspotFormToConfig_def
  convertGroup_def convertField_def fieldSchema_def bind_err_def base_schema_def z_string_def

text \<open>
  Claim C6. When the submit collaborator throws a generic error that carries no message,
  the banner reads \<^verbatim>\<open>Failed to submit form\<close> and \<^verbatim>\<open>onSubmissionResponse\<close> is called with
  \<^verbatim>\<open>{success: false, error: "Failed to submit form"}\<close>. The code does not do so when the
  thrown value is \<^verbatim>\<open>new Error()\<close>: the form has loaded, the user has submitted, the call
  rejects, and the form is shown with no error banner while the host is told
  \<^verbatim>\<open>error: ""\<close>.
\<close>

theorem submit_rejection_empty_error:
  "render (fst (run demo_props demo_browser
       (submit_events (Rejected (ErrorInstance []))) (mount demo_props)))
     = Inr (FormScreen (convertHubspotFormToConfig demo_form) False None)
   \<and> last (snd (run demo_props demo_browser
       (submit_events (Rejected (ErrorInstance []))) (mount demo_props)))
     = OnSubmissionResponse \<lparr>sr_success = False, sr_data = None, sr_error = Some []\<rparr>"
  by (simp add: submit_events_def demo_props_def demo_browser_def demo_form_def handler_defs
      initial_def render_def screen_of_def generateZodSchema_def convertHubspotFormToConfig_def
      convertGroup_def convertField_def fieldSchema_def bind_err_def base_schema_def
      z_string_def)

text \<open>
  On the same run the fallback is taken when the thrown value is not an \<^verbatim>\<open>Error\<close>, and
  also on the sibling branch, when the call resolves without success and with an empty
  \<^verbatim>\<open>error\<close>; a thrown \<^verbatim>\<open>Error\<close> with a message shows that message.
\<close>

lemma submit_failure_fallbacks:
  "render (fst (run demo_props demo_browser
       (submit_events (Rejected OtherValue)) (mount demo_props)))
     = Inr (FormScreen (convertHubspotFormToConfig demo_form) False (Some ''Failed to submit form''))"
  "last (snd (run demo_props demo_browser
       (submit_events (Rejected OtherValue)) (mount demo_props)))
     = OnSubmissionResponse
         \<lparr>sr_success = False, sr_data = None, sr_error = Some ''Failed to submit form''\<rparr>"
  "render (fst (run demo_props demo_browser
       (submit_events (Resolved \<lparr>sr_success = False, sr_data = None, sr_error = Some []\<rparr>))
       (mount demo_props)))
     = Inr (FormScreen (convertHubspotFormToConfig demo_form) False (Some ''Failed to submit form''))"
  "render (fst (run demo_props demo_browser
       (submit_events (Rejected (ErrorInstance ''Network down''))) (mount demo_props)))
     = Inr (FormScreen (convertHubspotFormToConfig demo_form) False (Some ''Network down''))"
  by (simp_all add: demo_defs handler_defs)

text \<open>
  Claim C7. When the fetch collaborator returns an unsuccessful result or throws, the
  component shows the error screen with the message given, or with a fallback message
  when none is, and stays there. The code does not do so when the thrown value is
  \<^verbatim>\<open>new Error()\<close>: the stored message is the empty string, which the render takes for
  no error, and the screen is the one for a missing configuration.
\<close>

theorem fetch_rejection_empty_error:
  "error (fst (run demo_props demo_browser
       [FetchSettled (Rejected (ErrorInstance []))] (mount demo_props))) = Some []
   \<and> render (fst (run demo_props demo_browser
       [FetchSettled (Rejected (ErrorInstance []))] (mount demo_props))) = Inr NoConfigScreen"
  by (simp add: demo_props_def handler_defs initial_def render_def screen_of_def)

text \<open>
  The other failures of the fetch end on the error screen: an unsuccessful result with a
  message (Scenario 3) or with an empty one, which takes the fallback; a thrown value
  that is not an \<^verbatim>\<open>Error\<close>; a thrown \<^verbatim>\<open>Error\<close> with a message.
\<close>

lemma fetch_failure_fallbacks:
  "render (fst (run demo_props demo_browser
       [FetchSettled (Resolved \<lparr>fr_success = False, fr_data = None, fr_error = Some ''not found''\<rparr>)]
       (mount demo_props))) = Inr (ErrorScreen ''not found'')"
  "render (fst (run demo_props demo_browser
       [FetchSettled (Resolved \<lparr>fr_success = False, fr_data = None, fr_error = Some []\<rparr>)]
       (mount demo_props))) = Inr (ErrorScreen ''Failed to fetch form'')"
  "render (fst (run demo_props demo_browser
       [FetchSettled (Rejected OtherValue)] (mount demo_props)))
     = Inr (ErrorScreen ''Failed to fetch form'')"
  "render (fst (run demo_props demo_browser
       [FetchSettled (Rejected (ErrorInstance ''Network down''))] (mount demo_props)))
     = Inr (ErrorScreen ''Network down'')"
  by (simp_all add: demo_props_def handler_defs initial_def render_def screen_of_def)

text \<open>
  No handler fetches again by itself: a settled fetch calls nothing, and the only event
  on which \<^verbatim>\<open>getHubspotForm\<close> is called after the mount is a new \<^verbatim>\<open>formId\<close>.
\<close>

lemma fetch_settled_no_actions: "snd (fetchForm_settled out st) = []"
  by (simp add: fetchForm_settled_def Let_def)

lemma only_formId_change_fetches:
  assumes "a \<in> set (snd (handle pr br e st))" and "is_fetch a"
  shows "\<exists>i. e = FormIdChanged i \<and> i \<noteq> props_formId pr \<and> a = FetchForm i"
proof (cases e)
  case (FormIdChanged i)
  with assms show ?thesis by (auto split: if_splits)
next
  case (FetchSettled out)
  with assms show ?thesis by (simp add: fetch_settled_no_actions)
next
  case (Submit vals)
  with assms show ?thesis by (auto simp: onSubmit_start_def Let_def split: if_splits)
next
  case (SubmitSettled out)
  with assms show ?thesis
    by (cases out) (auto simp: onSubmit_settled_def Let_def split: if_splits)
qed

end
